theory Spec2Isabelle
  imports Main
begin

section \<open>The Windows registration glue of the flutter\_mcp\_common plugin\<close>

text \<open>
  The sources are \<^verbatim>\<open>windows/flutter_mcp_common_plugin_c_api.cpp\<close> (the exported
  registration function) and \<^verbatim>\<open>windows/flutter_mcp_common_plugin.h\<close> (the
  declaration of the plugin class). The registrar manager, the registrar types and the
  method channel belong to the Flutter embedder; the body of
  \<^verbatim>\<open>FlutterMcpCommonPlugin::RegisterWithRegistrar\<close> is in a source file that is
  not part of the development.
\<close>

subsection \<open>Values that cross the boundary\<close>

text \<open>A C++ pointer is null or refers to an object.\<close>

datatype 'a pointer = nullptr | Ptr 'a

text \<open>
  \<^verbatim>\<open>FlutterDesktopPluginRegistrarRef\<close> is a pointer to a struct the embedder never
  defines for the plugin: the plugin can compare and pass such a value, nothing else.
  The struct is identified by its address.
\<close>

datatype FlutterDesktopPluginRegistrar = FlutterDesktopPluginRegistrar nat

type_synonym FlutterDesktopPluginRegistrarRef = "FlutterDesktopPluginRegistrar pointer"

text \<open>An object of the embedder's class \<^verbatim>\<open>flutter::PluginRegistrarWindows\<close>.\<close>

datatype PluginRegistrarWindows = PluginRegistrarWindows nat

text \<open>
  How a C++ call can end other than by returning: an exception leaves it, or the process
  is stopped (\<^verbatim>\<open>abort\<close>, a trap on a bad pointer).
\<close>

datatype failure = Thrown | Aborted

subsection \<open>The functions the shim calls\<close>

text \<open>
  None of the three functions the shim calls is defined in the two source files, so the
  shim is modelled over any behaviour of theirs. Each takes the state of the process
  (\<open>'w\<close>) and gives back how the call ended and the state it left. \<open>'m\<close> is the type of
  the pointer \<^verbatim>\<open>PluginRegistrarManager::GetInstance()\<close> returns;
  \<open>GetRegistrar\<close> is the instantiation
  \<^verbatim>\<open>GetRegistrar<flutter::PluginRegistrarWindows>\<close>, called on that pointer.
\<close>

record ('w, 'm) callees =
  GetInstance :: "'w \<Rightarrow> (failure + 'm) \<times> 'w"
  GetRegistrar ::
    "'m \<Rightarrow> FlutterDesktopPluginRegistrarRef \<Rightarrow> 'w \<Rightarrow> (failure + PluginRegistrarWindows pointer) \<times> 'w"
  RegisterWithRegistrar :: "PluginRegistrarWindows pointer \<Rightarrow> 'w \<Rightarrow> (failure + unit) \<times> 'w"

text \<open>The calls the shim makes, in the order it makes them, with their arguments.\<close>

datatype 'm call =
    Call_GetInstance
  | Call_GetRegistrar 'm FlutterDesktopPluginRegistrarRef
  | Call_RegisterWithRegistrar "PluginRegistrarWindows pointer"

fun is_RegisterWithRegistrar :: "'m call \<Rightarrow> bool" where
  "is_RegisterWithRegistrar (Call_RegisterWithRegistrar r) = True"
| "is_RegisterWithRegistrar c = False"

text \<open>
  One run of a \<^verbatim>\<open>void\<close> function: how it ended (\<open>Inr ()\<close> is a normal return),
  the state it left, and the calls it made.
\<close>

record ('w, 'm) run =
  outcome :: "failure + unit"
  world :: 'w
  calls :: "'m call list"

subsection \<open>The C API shim\<close>

text \<open>
  \<^verbatim>\<open>
  void FlutterMcpCommonPluginCApiRegisterWithRegistrar(
      FlutterDesktopPluginRegistrarRef registrar) {
    flutter_mcp_common::FlutterMcpCommonPlugin::RegisterWithRegistrar(
        flutter::PluginRegistrarManager::GetInstance()
            ->GetRegistrar<flutter::PluginRegistrarWindows>(registrar));
  }
  \<close>
  The argument of the outer call is evaluated first: \<open>GetInstance\<close>, then
  \<open>GetRegistrar\<close> on the pointer it returned. The body has no \<^verbatim>\<open>try\<close>, no test
  and no \<^verbatim>\<open>return\<close>: a call that does not return ends the shim the same way, and
  the calls after it are not made.
\<close>

definition FlutterMcpCommonPluginCApiRegisterWithRegistrar ::
  "('w, 'm) callees \<Rightarrow> FlutterDesktopPluginRegistrarRef \<Rightarrow> 'w \<Rightarrow> ('w, 'm) run" where
  "FlutterMcpCommonPluginCApiRegisterWithRegistrar env registrar w =
     (case GetInstance env w of
        (Inl e, w1) \<Rightarrow> \<lparr>outcome = Inl e, world = w1, calls = [Call_GetInstance]\<rparr>
      | (Inr m, w1) \<Rightarrow>
          (case GetRegistrar env m registrar w1 of
             (Inl e, w2) \<Rightarrow>
               \<lparr>outcome = Inl e, world = w2,
                calls = [Call_GetInstance, Call_GetRegistrar m registrar]\<rparr>
           | (Inr r, w2) \<Rightarrow>
               (case RegisterWithRegistrar env r w2 of
                  (res, w3) \<Rightarrow>
                    \<lparr>outcome = res, world = w3,
                     calls = [Call_GetInstance, Call_GetRegistrar m registrar,
                              Call_RegisterWithRegistrar r]\<rparr>)))"

subsection \<open>The host calling the shim again\<close>

text \<open>
  The host calls the exported function \<open>n\<close> times with the same handle, each call
  starting in the state the one before left. A call that does not return ends the
  sequence: an exception reaches the host, or the process is gone.
\<close>

fun invoke_repeatedly ::
  "nat \<Rightarrow> ('w, 'm) callees \<Rightarrow> FlutterDesktopPluginRegistrarRef \<Rightarrow> 'w \<Rightarrow> (failure + unit) \<times> 'w" where
  "invoke_repeatedly 0 env registrar w = (Inr (), w)"
| "invoke_repeatedly (Suc n) env registrar w =
     (let r = FlutterMcpCommonPluginCApiRegisterWithRegistrar env registrar w in
      case outcome r of
        Inl e \<Rightarrow> (Inl e, world r)
      | Inr u \<Rightarrow> invoke_repeatedly n env registrar (world r))"

subsection \<open>The plugin's registration entry point\<close>

text \<open>
  The header declares
  \<^verbatim>\<open>static void RegisterWithRegistrar(flutter::PluginRegistrarWindows *registrar);\<close>
  and the handler
  \<^verbatim>\<open>void HandleMethodCall(const flutter::MethodCall<...> &, std::unique_ptr<flutter::MethodResult<...>>)\<close>.
  Neither body is in the two source files.
\<close>

text \<open>The handler a method channel dispatches to: the plugin's \<^verbatim>\<open>HandleMethodCall\<close>.\<close>

datatype handler = HandleMethodCall

text \<open>
  Modelled from the spec: the host's plugin registry, which is the embedder's and not in
  the source files. The spec (4.1) speaks of "the host's plugin registry", left by the
  registration "in a state where subsequent calls into the method channel are dispatched
  to the handler"; its glossary has the registrar as the "host-provided object through
  which a plugin registers its communication channel and handlers". So the registry
  holds, for each registrar and channel name, the handler calls are dispatched to, if
  any. The record can be extended by whatever else the host keeps.
\<close>

record registry =
  handlers :: "PluginRegistrarWindows \<Rightarrow> string \<Rightarrow> handler option"

text \<open>Modelled from the spec: the name of the platform channel (spec 1).\<close>

definition channel_name :: string where
  "channel_name = ''flutter_mcp_common''"

text \<open>
  Modelled from the spec: where the host dispatches a call that arrives on a channel of
  a registrar.
\<close>

definition dispatch :: "'z registry_scheme \<Rightarrow> PluginRegistrarWindows \<Rightarrow> string \<Rightarrow> handler option" where
  "dispatch w r ch = handlers w r ch"

text \<open>
  Modelled from the spec: the body of
  \<^verbatim>\<open>FlutterMcpCommonPlugin::RegisterWithRegistrar\<close>, which is in
  \<^verbatim>\<open>flutter_mcp_common_plugin.cpp\<close> and not among the source files. Spec 4.1:
  "given a non-null registrar, must not throw/abort; must leave the host's plugin
  registry in a state where subsequent calls into the method channel are dispatched to
  the handler. No return value." What it does with a null registrar the spec leaves
  undefined (4.3), so that behaviour is a parameter, \<open>on_null\<close>.
\<close>

definition FlutterMcpCommonPlugin_RegisterWithRegistrar ::
  "('z registry_scheme \<Rightarrow> (failure + unit) \<times> 'z registry_scheme) \<Rightarrow>
   PluginRegistrarWindows pointer \<Rightarrow> 'z registry_scheme \<Rightarrow> (failure + unit) \<times> 'z registry_scheme" where
  "FlutterMcpCommonPlugin_RegisterWithRegistrar on_null registrar w =
     (case registrar of
        nullptr \<Rightarrow> on_null w
      | Ptr r \<Rightarrow>
          (Inr (),
           w\<lparr>handlers := (handlers w)(r := (handlers w r)(channel_name \<mapsto> HandleMethodCall))\<rparr>))"

subsection \<open>The declarations\<close>

text \<open>
  What the header says of the class, member by member:
  \<^verbatim>\<open>
  class FlutterMcpCommonPlugin : public flutter::Plugin {
   public:
    static void RegisterWithRegistrar(flutter::PluginRegistrarWindows *registrar);
    FlutterMcpCommonPlugin();
    virtual ~FlutterMcpCommonPlugin();
    // Disallow copy and assign.
    FlutterMcpCommonPlugin(const FlutterMcpCommonPlugin&) = delete;
    FlutterMcpCommonPlugin& operator=(const FlutterMcpCommonPlugin&) = delete;
    // Called when a method is called on this plugin's channel from Dart.
    void HandleMethodCall(
        const flutter::MethodCall<flutter::EncodableValue> &method_call,
        std::unique_ptr<flutter::MethodResult<flutter::EncodableValue>> result);
  };
  \<close>
  A special member function is declared (its body elsewhere) or deleted
  (\<^verbatim>\<open>= delete\<close>).
\<close>

datatype special = Declared | Deleted

datatype member =
    StaticMemberFunction string
  | DefaultConstructor special
  | Destructor special
  | CopyConstructor special
  | CopyAssignment special
  | MemberFunction string
  | DataMember string

record class_decl =
  class_name :: string
  bases :: "string list"
  members :: "member list"

definition FlutterMcpCommonPlugin :: class_decl where
  "FlutterMcpCommonPlugin =
     \<lparr>class_name = ''FlutterMcpCommonPlugin'',
      bases = [''flutter::Plugin''],
      members =
        [StaticMemberFunction ''RegisterWithRegistrar'',
         DefaultConstructor Declared,
         Destructor Declared,
         CopyConstructor Deleted,
         CopyAssignment Deleted,
         MemberFunction ''HandleMethodCall'']\<rparr>"

text \<open>
  The copy constructor and the copy assignment operator a class declares itself, if it
  does. A class that declares neither gets implicit ones (\<open>None\<close> here).
\<close>

fun declared_copy_constructor :: "member list \<Rightarrow> special option" where
  "declared_copy_constructor [] = None"
| "declared_copy_constructor (CopyConstructor s # ms) = Some s"
| "declared_copy_constructor (m # ms) = declared_copy_constructor ms"

fun declared_copy_assignment :: "member list \<Rightarrow> special option" where
  "declared_copy_assignment [] = None"
| "declared_copy_assignment (CopyAssignment s # ms) = Some s"
| "declared_copy_assignment (m # ms) = declared_copy_assignment ms"

text \<open>
  C++ refuses a program that uses a deleted function. Copy-initialising an object of
  the class from another (\<^verbatim>\<open>T b(a);\<close>, \<^verbatim>\<open>T b = a;\<close>, passing by value) uses the
  copy constructor; \<^verbatim>\<open>b = a;\<close> uses the copy assignment operator. Since the class
  declares both itself, it has no implicit move operations that could be chosen
  instead.
\<close>

definition copy_construction_compiles :: "class_decl \<Rightarrow> bool" where
  "copy_construction_compiles c =
     (case declared_copy_constructor (members c) of
        Some Deleted \<Rightarrow> False
      | Some Declared \<Rightarrow> True
      | None \<Rightarrow> True)"

definition copy_assignment_compiles :: "class_decl \<Rightarrow> bool" where
  "copy_assignment_compiles c =
     (case declared_copy_assignment (members c) of
        Some Deleted \<Rightarrow> False
      | Some Declared \<Rightarrow> True
      | None \<Rightarrow> True)"

text \<open>
  The non-static data members of a class. The state of an instance is one value for
  each data member, in the order of declaration.
\<close>

fun data_members :: "member list \<Rightarrow> string list" where
  "data_members [] = []"
| "data_members (DataMember n # ms) = n # data_members ms"
| "data_members (m # ms) = data_members ms"

definition instance_state :: "class_decl \<Rightarrow> (string \<times> 'v) list \<Rightarrow> bool" where
  "instance_state c s = (map fst s = data_members (members c))"

text \<open>
  The declaration of the exported function, from
  \<^verbatim>\<open>void FlutterMcpCommonPluginCApiRegisterWithRegistrar(FlutterDesktopPluginRegistrarRef registrar)\<close>.
\<close>

datatype ctype = Void | TypeName string

record function_decl =
  function_name :: string
  return_type :: ctype
  parameters :: "(ctype \<times> string) list"

definition FlutterMcpCommonPluginCApiRegisterWithRegistrar_decl :: function_decl where
  "FlutterMcpCommonPluginCApiRegisterWithRegistrar_decl =
     \<lparr>function_name = ''FlutterMcpCommonPluginCApiRegisterWithRegistrar'',
      return_type = Void,
      parameters = [(TypeName ''FlutterDesktopPluginRegistrarRef'', ''registrar'')]\<rparr>"

subsection \<open>An embedder to run the model on\<close>

text \<open>
  The theorems below hold for every behaviour of the embedder. To run the model on
  concrete inputs one behaviour is fixed here: the manager is a single object; it
  resolves a non-null handle to the registrar object made for it, remembering the
  handle, and stops the process on a null handle or a null manager.
\<close>

datatype PluginRegistrarManager = PluginRegistrarManager

record embedder_state = registry +
  registrars :: "FlutterDesktopPluginRegistrar list"

definition embedder_GetInstance ::
  "embedder_state \<Rightarrow> (failure + PluginRegistrarManager pointer) \<times> embedder_state" where
  "embedder_GetInstance w = (Inr (Ptr PluginRegistrarManager), w)"

definition embedder_GetRegistrar ::
  "PluginRegistrarManager pointer \<Rightarrow> FlutterDesktopPluginRegistrarRef \<Rightarrow> embedder_state \<Rightarrow>
   (failure + PluginRegistrarWindows pointer) \<times> embedder_state" where
  "embedder_GetRegistrar m registrar w =
     (case m of
        nullptr \<Rightarrow> (Inl Aborted, w)
      | Ptr mgr \<Rightarrow>
          (case registrar of
             nullptr \<Rightarrow> (Inl Aborted, w)
           | Ptr (FlutterDesktopPluginRegistrar a) \<Rightarrow>
               (Inr (Ptr (PluginRegistrarWindows a)),
                w\<lparr>registrars := List.insert (FlutterDesktopPluginRegistrar a) (registrars w)\<rparr>)))"

definition embedder :: "(embedder_state, PluginRegistrarManager pointer) callees" where
  "embedder =
     \<lparr>GetInstance = embedder_GetInstance,
      GetRegistrar = embedder_GetRegistrar,
      RegisterWithRegistrar =
        FlutterMcpCommonPlugin_RegisterWithRegistrar (\<lambda>w. (Inl Aborted, w))\<rparr>"

definition at_load :: embedder_state where
  "at_load = \<lparr>handlers = (\<lambda>r ch. None), registrars = []\<rparr>"

text \<open>
  A second behaviour, to count registrations: the state of the process is the number of
  times \<open>RegisterWithRegistrar\<close> has run. This host resolves every handle, the null
  handle to a null registrar, and never fails.
\<close>

definition counting_host :: "(nat, PluginRegistrarManager pointer) callees" where
  "counting_host =
     \<lparr>GetInstance = (\<lambda>n. (Inr (Ptr PluginRegistrarManager), n)),
      GetRegistrar =
        (\<lambda>m registrar n.
           (case registrar of
              nullptr \<Rightarrow> (Inr nullptr, n)
            | Ptr (FlutterDesktopPluginRegistrar a) \<Rightarrow> (Inr (Ptr (PluginRegistrarWindows a)), n))),
      RegisterWithRegistrar = (\<lambda>r n. (Inr (), Suc n))\<rparr>"

text \<open>A third behaviour: the singleton lookup itself throws.\<close>

definition throwing_host :: "(nat, PluginRegistrarManager pointer) callees" where
  "throwing_host = counting_host\<lparr>GetInstance := (\<lambda>n. (Inl Thrown, n))\<rparr>"

section \<open>Properties\<close>

subsection \<open>Running the embedder\<close>

lemma embedder_GetInstance_returns:
  "GetInstance embedder w = (Inr (Ptr PluginRegistrarManager), w)"
  by (simp add: embedder_def embedder_GetInstance_def)

lemma embedder_GetRegistrar_resolves:
  "GetRegistrar embedder (Ptr PluginRegistrarManager) (Ptr (FlutterDesktopPluginRegistrar a)) w =
     (Inr (Ptr (PluginRegistrarWindows a)),
      w\<lparr>registrars := List.insert (FlutterDesktopPluginRegistrar a) (registrars w)\<rparr>)"
  by (simp add: embedder_def embedder_GetRegistrar_def)

lemma embedder_GetRegistrar_null:
  "GetRegistrar embedder (Ptr PluginRegistrarManager) nullptr w = (Inl Aborted, w)"
  by (simp add: embedder_def embedder_GetRegistrar_def)

lemma embedder_RegisterWithRegistrar:
  "RegisterWithRegistrar embedder =
     FlutterMcpCommonPlugin_RegisterWithRegistrar (\<lambda>w. (Inl Aborted, w))"
  by (simp add: embedder_def)

subsection \<open>The shim\<close>

text \<open>
  C1. When the handle is valid, that is, the singleton lookup returns a manager \<open>m\<close>
  and \<open>m\<close> resolves the handle to a typed registrar \<open>r\<close>, the shim makes three calls:
  the lookup, the resolution of that same handle on \<open>m\<close>, and one call of
  \<open>RegisterWithRegistrar\<close>, whose argument is \<open>r\<close>. No other call of
  \<open>RegisterWithRegistrar\<close> is made: the way the shim ends and the state it leaves are
  those of \<open>RegisterWithRegistrar\<close> applied once to \<open>r\<close>, in the state the resolution
  left. On a host that counts registrations the count goes up by one.
\<close>

theorem shim_calls_register_once:
  assumes "GetInstance env w = (Inr m, w1)"
    and "GetRegistrar env m registrar w1 = (Inr r, w2)"
  shows "calls (FlutterMcpCommonPluginCApiRegisterWithRegistrar env registrar w) =
           [Call_GetInstance, Call_GetRegistrar m registrar, Call_RegisterWithRegistrar r]
       \<and> filter is_RegisterWithRegistrar
           (calls (FlutterMcpCommonPluginCApiRegisterWithRegistrar env registrar w)) =
           [Call_RegisterWithRegistrar r]
       \<and> (outcome (FlutterMcpCommonPluginCApiRegisterWithRegistrar env registrar w),
          world (FlutterMcpCommonPluginCApiRegisterWithRegistrar env registrar w)) =
           RegisterWithRegistrar env r w2"
  using assms
  by (simp add: FlutterMcpCommonPluginCApiRegisterWithRegistrar_def split: prod.splits)

theorem shim_calls_register_once_witness:
  "calls (FlutterMcpCommonPluginCApiRegisterWithRegistrar counting_host
            (Ptr (FlutterDesktopPluginRegistrar 7)) 0) =
     [Call_GetInstance,
      Call_GetRegistrar (Ptr PluginRegistrarManager) (Ptr (FlutterDesktopPluginRegistrar 7)),
      Call_RegisterWithRegistrar (Ptr (PluginRegistrarWindows 7))]
   \<and> outcome (FlutterMcpCommonPluginCApiRegisterWithRegistrar counting_host
        (Ptr (FlutterDesktopPluginRegistrar 7)) 0) = Inr ()
   \<and> world (FlutterMcpCommonPluginCApiRegisterWithRegistrar counting_host
        (Ptr (FlutterDesktopPluginRegistrar 7)) 0) = 1"
  using shim_calls_register_once [where env = counting_host and w = 0
      and m = "Ptr PluginRegistrarManager"
      and registrar = "Ptr (FlutterDesktopPluginRegistrar 7)"
      and r = "Ptr (PluginRegistrarWindows 7)"]
  by (simp add: counting_host_def)

text \<open>
  C2. The registration body is not among the sources and is taken as modelled above.
  When the embedder resolves the handle to a registrar object \<open>r\<close>, the shim first hands
  the handle to \<open>GetRegistrar\<close>, then passes the typed registrar to the registration,
  returns normally, and leaves the registry dispatching the plugin's channel on \<open>r\<close> to
  \<open>HandleMethodCall\<close>.
\<close>

theorem shim_wires_handler:
  assumes "GetInstance env w = (Inr m, w1)"
    and "GetRegistrar env m registrar w1 = (Inr (Ptr r), w2)"
    and "RegisterWithRegistrar env = FlutterMcpCommonPlugin_RegisterWithRegistrar on_null"
  shows "calls (FlutterMcpCommonPluginCApiRegisterWithRegistrar env registrar w) =
           [Call_GetInstance, Call_GetRegistrar m registrar, Call_RegisterWithRegistrar (Ptr r)]
       \<and> outcome (FlutterMcpCommonPluginCApiRegisterWithRegistrar env registrar w) = Inr ()
       \<and> dispatch (world (FlutterMcpCommonPluginCApiRegisterWithRegistrar env registrar w))
            r channel_name = Some HandleMethodCall"
  using assms
  by (simp add: FlutterMcpCommonPluginCApiRegisterWithRegistrar_def
      FlutterMcpCommonPlugin_RegisterWithRegistrar_def dispatch_def)

theorem shim_wires_handler_witness:
  "dispatch at_load (PluginRegistrarWindows 7) channel_name = None
   \<and> outcome (FlutterMcpCommonPluginCApiRegisterWithRegistrar embedder
        (Ptr (FlutterDesktopPluginRegistrar 7)) at_load) = Inr ()
   \<and> dispatch (world (FlutterMcpCommonPluginCApiRegisterWithRegistrar embedder
        (Ptr (FlutterDesktopPluginRegistrar 7)) at_load))
        (PluginRegistrarWindows 7) channel_name = Some HandleMethodCall"
  using shim_wires_handler [where env = embedder and w = at_load
      and registrar = "Ptr (FlutterDesktopPluginRegistrar 7)",
      OF embedder_GetInstance_returns embedder_GetRegistrar_resolves embedder_RegisterWithRegistrar]
  by (simp add: dispatch_def at_load_def)

text \<open>
  C3. For every handle, the null handle included, and in every state of the process,
  a state left by an earlier registration included, the shim does exactly this and
  nothing else. If the singleton lookup does not return, the shim ends the same way in
  the state the lookup left. If the lookup returns and the resolution of the handle
  does not, the shim ends the way the resolution did, in the state it left. If both
  return, the registration is called on whatever registrar the resolution gave, null
  or not, and the shim ends the way the registration did, in the state it left. So the
  shim tests neither the handle nor the registrar, skips no call, swallows no failure
  and raises none of its own: when it does not return normally, one of the three calls
  it made ended that way, with the same failure.
\<close>

theorem shim_adds_no_failure:
  "(\<forall>e w1. GetInstance env w = (Inl e, w1) \<longrightarrow>
       outcome (FlutterMcpCommonPluginCApiRegisterWithRegistrar env registrar w) = Inl e
     \<and> world (FlutterMcpCommonPluginCApiRegisterWithRegistrar env registrar w) = w1
     \<and> calls (FlutterMcpCommonPluginCApiRegisterWithRegistrar env registrar w) =
         [Call_GetInstance])
   \<and> (\<forall>m w1 e w2. GetInstance env w = (Inr m, w1)
         \<and> GetRegistrar env m registrar w1 = (Inl e, w2) \<longrightarrow>
       outcome (FlutterMcpCommonPluginCApiRegisterWithRegistrar env registrar w) = Inl e
     \<and> world (FlutterMcpCommonPluginCApiRegisterWithRegistrar env registrar w) = w2
     \<and> calls (FlutterMcpCommonPluginCApiRegisterWithRegistrar env registrar w) =
         [Call_GetInstance, Call_GetRegistrar m registrar])
   \<and> (\<forall>m w1 r w2. GetInstance env w = (Inr m, w1)
         \<and> GetRegistrar env m registrar w1 = (Inr r, w2) \<longrightarrow>
       (outcome (FlutterMcpCommonPluginCApiRegisterWithRegistrar env registrar w),
        world (FlutterMcpCommonPluginCApiRegisterWithRegistrar env registrar w)) =
         RegisterWithRegistrar env r w2
     \<and> calls (FlutterMcpCommonPluginCApiRegisterWithRegistrar env registrar w) =
         [Call_GetInstance, Call_GetRegistrar m registrar, Call_RegisterWithRegistrar r])
   \<and> (outcome (FlutterMcpCommonPluginCApiRegisterWithRegistrar env registrar w) = Inl e \<longrightarrow>
         fst (GetInstance env w) = Inl e
       \<or> (\<exists>m w1. GetInstance env w = (Inr m, w1)
             \<and> fst (GetRegistrar env m registrar w1) = Inl e)
       \<or> (\<exists>m w1 r w2. GetInstance env w = (Inr m, w1)
             \<and> GetRegistrar env m registrar w1 = (Inr r, w2)
             \<and> fst (RegisterWithRegistrar env r w2) = Inl e))
   \<and> (\<forall>m w1. GetInstance env w = (Inr m, w1) \<longrightarrow>
         Call_GetRegistrar m registrar
           \<in> set (calls (FlutterMcpCommonPluginCApiRegisterWithRegistrar env registrar w)))"
proof -
  let ?run = "FlutterMcpCommonPluginCApiRegisterWithRegistrar env registrar w"
  have lookup_fails: "outcome ?run = Inl e' \<and> world ?run = w1 \<and> calls ?run = [Call_GetInstance]"
    if "GetInstance env w = (Inl e', w1)" for e' w1
    using that by (simp add: FlutterMcpCommonPluginCApiRegisterWithRegistrar_def)
  have resolution_fails:
    "outcome ?run = Inl e' \<and> world ?run = w2
     \<and> calls ?run = [Call_GetInstance, Call_GetRegistrar m registrar]"
    if "GetInstance env w = (Inr m, w1)" and "GetRegistrar env m registrar w1 = (Inl e', w2)"
    for m w1 e' w2
    using that by (simp add: FlutterMcpCommonPluginCApiRegisterWithRegistrar_def)
  have registers:
    "(outcome ?run, world ?run) = RegisterWithRegistrar env r w2
     \<and> calls ?run = [Call_GetInstance, Call_GetRegistrar m registrar, Call_RegisterWithRegistrar r]"
    if "GetInstance env w = (Inr m, w1)" and "GetRegistrar env m registrar w1 = (Inr r, w2)"
    for m w1 r w2
    using that
    by (simp add: FlutterMcpCommonPluginCApiRegisterWithRegistrar_def split: prod.splits)
  have from_callee:
    "fst (GetInstance env w) = Inl e
     \<or> (\<exists>m w1. GetInstance env w = (Inr m, w1) \<and> fst (GetRegistrar env m registrar w1) = Inl e)
     \<or> (\<exists>m w1 r w2. GetInstance env w = (Inr m, w1)
           \<and> GetRegistrar env m registrar w1 = (Inr r, w2)
           \<and> fst (RegisterWithRegistrar env r w2) = Inl e)"
    if "outcome ?run = Inl e"
    using that
    by (auto simp add: FlutterMcpCommonPluginCApiRegisterWithRegistrar_def
        split: prod.splits sum.splits)
  have untested: "Call_GetRegistrar m registrar \<in> set (calls ?run)"
    if "GetInstance env w = (Inr m, w1)" for m w1
    using that
    by (auto simp add: FlutterMcpCommonPluginCApiRegisterWithRegistrar_def
        split: prod.splits sum.splits)
  from lookup_fails resolution_fails registers from_callee untested show ?thesis
    by blast
qed

theorem shim_adds_no_failure_witness:
  "outcome (FlutterMcpCommonPluginCApiRegisterWithRegistrar throwing_host nullptr 0) = Inl Thrown
   \<and> world (FlutterMcpCommonPluginCApiRegisterWithRegistrar throwing_host nullptr 0) = 0
   \<and> outcome (FlutterMcpCommonPluginCApiRegisterWithRegistrar embedder nullptr at_load) =
       Inl Aborted
   \<and> world (FlutterMcpCommonPluginCApiRegisterWithRegistrar embedder nullptr at_load) = at_load
   \<and> calls (FlutterMcpCommonPluginCApiRegisterWithRegistrar embedder nullptr at_load) =
       [Call_GetInstance, Call_GetRegistrar (Ptr PluginRegistrarManager) nullptr]
   \<and> outcome (FlutterMcpCommonPluginCApiRegisterWithRegistrar counting_host nullptr 0) = Inr ()
   \<and> world (FlutterMcpCommonPluginCApiRegisterWithRegistrar counting_host nullptr 0) = 1
   \<and> calls (FlutterMcpCommonPluginCApiRegisterWithRegistrar counting_host nullptr 0) =
       [Call_GetInstance, Call_GetRegistrar (Ptr PluginRegistrarManager) nullptr,
        Call_RegisterWithRegistrar nullptr]"
proof -
  have lookup: "GetInstance throwing_host 0 = (Inl Thrown, 0)"
    by (simp add: throwing_host_def)
  have counted: "GetInstance counting_host 0 = (Inr (Ptr PluginRegistrarManager), 0)"
    "GetRegistrar counting_host (Ptr PluginRegistrarManager) nullptr 0 = (Inr nullptr, 0)"
    "RegisterWithRegistrar counting_host nullptr 0 = (Inr (), 1)"
    by (simp_all add: counting_host_def)
  from shim_adds_no_failure [of throwing_host 0 nullptr Thrown] lookup
  have first: "outcome (FlutterMcpCommonPluginCApiRegisterWithRegistrar throwing_host nullptr 0) =
      Inl Thrown
    \<and> world (FlutterMcpCommonPluginCApiRegisterWithRegistrar throwing_host nullptr 0) = 0"
    by blast
  from shim_adds_no_failure [of embedder at_load nullptr Aborted]
    embedder_GetInstance_returns [of at_load] embedder_GetRegistrar_null [of at_load]
  have second: "outcome (FlutterMcpCommonPluginCApiRegisterWithRegistrar embedder nullptr at_load) =
      Inl Aborted
    \<and> world (FlutterMcpCommonPluginCApiRegisterWithRegistrar embedder nullptr at_load) = at_load
    \<and> calls (FlutterMcpCommonPluginCApiRegisterWithRegistrar embedder nullptr at_load) =
        [Call_GetInstance, Call_GetRegistrar (Ptr PluginRegistrarManager) nullptr]"
    by blast
  from shim_adds_no_failure [of counting_host 0 nullptr Aborted] counted(1) counted(2)
  have "(outcome (FlutterMcpCommonPluginCApiRegisterWithRegistrar counting_host nullptr 0),
         world (FlutterMcpCommonPluginCApiRegisterWithRegistrar counting_host nullptr 0)) =
          RegisterWithRegistrar counting_host nullptr 0
    \<and> calls (FlutterMcpCommonPluginCApiRegisterWithRegistrar counting_host nullptr 0) =
        [Call_GetInstance, Call_GetRegistrar (Ptr PluginRegistrarManager) nullptr,
         Call_RegisterWithRegistrar nullptr]"
    by blast
  with counted(3)
  have third: "outcome (FlutterMcpCommonPluginCApiRegisterWithRegistrar counting_host nullptr 0) =
      Inr ()
    \<and> world (FlutterMcpCommonPluginCApiRegisterWithRegistrar counting_host nullptr 0) = 1
    \<and> calls (FlutterMcpCommonPluginCApiRegisterWithRegistrar counting_host nullptr 0) =
        [Call_GetInstance, Call_GetRegistrar (Ptr PluginRegistrarManager) nullptr,
         Call_RegisterWithRegistrar nullptr]"
    by simp
  from first second third show ?thesis
    by simp
qed

text \<open>
  C8. The exported function is declared with one parameter, of type
  \<^verbatim>\<open>FlutterDesktopPluginRegistrarRef\<close>, and returns \<^verbatim>\<open>void\<close>. Once the
  singleton manager has resolved the handle, the way the shim ends and the state it
  leaves are those of the registration call on the resolved registrar: it does nothing
  after that call and nothing beside it.
\<close>

theorem shim_signature_and_effect:
  assumes "GetInstance env w = (Inr m, w1)"
    and "GetRegistrar env m registrar w1 = (Inr r, w2)"
  shows "parameters FlutterMcpCommonPluginCApiRegisterWithRegistrar_decl =
           [(TypeName ''FlutterDesktopPluginRegistrarRef'', ''registrar'')]
       \<and> return_type FlutterMcpCommonPluginCApiRegisterWithRegistrar_decl = Void
       \<and> (outcome (FlutterMcpCommonPluginCApiRegisterWithRegistrar env registrar w),
          world (FlutterMcpCommonPluginCApiRegisterWithRegistrar env registrar w)) =
           RegisterWithRegistrar env r w2"
  using assms
  by (simp add: FlutterMcpCommonPluginCApiRegisterWithRegistrar_decl_def
      FlutterMcpCommonPluginCApiRegisterWithRegistrar_def split: prod.splits)

theorem shim_signature_and_effect_witness:
  "length (parameters FlutterMcpCommonPluginCApiRegisterWithRegistrar_decl) = 1
   \<and> (outcome (FlutterMcpCommonPluginCApiRegisterWithRegistrar embedder
         (Ptr (FlutterDesktopPluginRegistrar 7)) at_load),
      world (FlutterMcpCommonPluginCApiRegisterWithRegistrar embedder
         (Ptr (FlutterDesktopPluginRegistrar 7)) at_load)) =
     RegisterWithRegistrar embedder (Ptr (PluginRegistrarWindows 7))
       (at_load\<lparr>registrars := [FlutterDesktopPluginRegistrar 7]\<rparr>)"
  using shim_signature_and_effect [where env = embedder and w = at_load
      and registrar = "Ptr (FlutterDesktopPluginRegistrar 7)",
      OF embedder_GetInstance_returns embedder_GetRegistrar_resolves]
  by (simp add: at_load_def)

text \<open>
  C9. Let \<open>mgr\<close> pick the state of the singleton manager out of the state of the
  process, and let the manager's two functions read nothing else: what they return,
  and the manager state \<open>GetInstance\<close> leaves, depend on \<open>mgr\<close> alone. Then two
  invocations with equal handles, in states with equal manager state, make the same
  calls with the same arguments, the registrar passed to \<open>RegisterWithRegistrar\<close>
  among them, whatever else differs between the two states.
\<close>

theorem shim_deterministic:
  assumes "\<And>w w'. mgr w = mgr w' \<Longrightarrow>
            fst (GetInstance env w) = fst (GetInstance env w')
          \<and> mgr (snd (GetInstance env w)) = mgr (snd (GetInstance env w'))"
    and "\<And>m h w w'. mgr w = mgr w' \<Longrightarrow>
            fst (GetRegistrar env m h w) = fst (GetRegistrar env m h w')"
    and "mgr w = mgr w'"
    and "registrar = registrar'"
  shows "calls (FlutterMcpCommonPluginCApiRegisterWithRegistrar env registrar w) =
         calls (FlutterMcpCommonPluginCApiRegisterWithRegistrar env registrar' w')"
proof -
  obtain a w1 where gi: "GetInstance env w = (a, w1)" by (cases "GetInstance env w")
  obtain a' w1' where gi': "GetInstance env w' = (a', w1')" by (cases "GetInstance env w'")
  from assms(1) [OF assms(3)] gi gi' have same: "a' = a" and mgr1: "mgr w1 = mgr w1'"
    by simp_all
  show ?thesis
  proof (cases a)
    case (Inl e)
    with gi gi' same show ?thesis
      by (simp add: FlutterMcpCommonPluginCApiRegisterWithRegistrar_def)
  next
    case (Inr m)
    obtain b w2 where gr: "GetRegistrar env m registrar w1 = (b, w2)"
      by (cases "GetRegistrar env m registrar w1")
    obtain b' w2' where gr': "GetRegistrar env m registrar w1' = (b', w2')"
      by (cases "GetRegistrar env m registrar w1'")
    from assms(2) [OF mgr1, of m registrar] gr gr' have "b' = b"
      by simp
    with Inr gi gi' same gr gr' assms(4) show ?thesis
      by (simp add: FlutterMcpCommonPluginCApiRegisterWithRegistrar_def
          split: sum.splits prod.splits)
  qed
qed

theorem shim_deterministic_witness:
  "calls (FlutterMcpCommonPluginCApiRegisterWithRegistrar embedder
            (Ptr (FlutterDesktopPluginRegistrar 7)) at_load) =
   calls (FlutterMcpCommonPluginCApiRegisterWithRegistrar embedder
            (Ptr (FlutterDesktopPluginRegistrar 7))
            (at_load\<lparr>handlers := (\<lambda>r ch. Some HandleMethodCall)\<rparr>))"
  using shim_deterministic [where env = embedder and mgr = registrars and w = at_load
      and w' = "at_load\<lparr>handlers := (\<lambda>r ch. Some HandleMethodCall)\<rparr>"
      and registrar = "Ptr (FlutterDesktopPluginRegistrar 7)"
      and registrar' = "Ptr (FlutterDesktopPluginRegistrar 7)"]
  by (simp add: embedder_def embedder_GetInstance_def embedder_GetRegistrar_def
      split: pointer.splits FlutterDesktopPluginRegistrar.splits)

text \<open>
  C10. The shim changes nothing that the calls it delegates to leave alone: any
  observation \<open>f\<close> of the state of the process that each of the three calls preserves,
  on every argument, has the same value after the shim as before it.
\<close>

theorem shim_frame:
  assumes "\<And>w. f (snd (GetInstance env w)) = f w"
    and "\<And>m h w. f (snd (GetRegistrar env m h w)) = f w"
    and "\<And>r w. f (snd (RegisterWithRegistrar env r w)) = f w"
  shows "f (world (FlutterMcpCommonPluginCApiRegisterWithRegistrar env registrar w)) = f w"
proof -
  obtain a w1 where gi: "GetInstance env w = (a, w1)" by (cases "GetInstance env w")
  from assms(1) [of w] gi have f1: "f w1 = f w" by simp
  show ?thesis
  proof (cases a)
    case (Inl e)
    with gi f1 show ?thesis
      by (simp add: FlutterMcpCommonPluginCApiRegisterWithRegistrar_def)
  next
    case m: (Inr m)
    obtain b w2 where gr: "GetRegistrar env m registrar w1 = (b, w2)"
      by (cases "GetRegistrar env m registrar w1")
    from assms(2) [of m registrar w1] gr f1 have f2: "f w2 = f w" by simp
    show ?thesis
    proof (cases b)
      case (Inl e)
      with m gi gr f2 show ?thesis
        by (simp add: FlutterMcpCommonPluginCApiRegisterWithRegistrar_def)
    next
      case r: (Inr r)
      obtain c w3 where rw: "RegisterWithRegistrar env r w2 = (c, w3)"
        by (cases "RegisterWithRegistrar env r w2")
      from assms(3) [of r w2] rw f2 have "f w3 = f w" by simp
      with m r gi gr rw show ?thesis
        by (simp add: FlutterMcpCommonPluginCApiRegisterWithRegistrar_def)
    qed
  qed
qed

theorem shim_frame_witness:
  "handlers (world (FlutterMcpCommonPluginCApiRegisterWithRegistrar embedder
       (Ptr (FlutterDesktopPluginRegistrar 7)) at_load))
     (PluginRegistrarWindows 7) ''another_channel''
   = handlers at_load (PluginRegistrarWindows 7) ''another_channel''"
  using shim_frame [where env = embedder and w = at_load
      and f = "\<lambda>w. handlers w (PluginRegistrarWindows 7) ''another_channel''"
      and registrar = "Ptr (FlutterDesktopPluginRegistrar 7)"]
  by (simp add: embedder_def embedder_GetInstance_def embedder_GetRegistrar_def
      FlutterMcpCommonPlugin_RegisterWithRegistrar_def channel_name_def
      split: pointer.splits FlutterDesktopPluginRegistrar.splits)

subsection \<open>The registration entry point and repeated registration\<close>

text \<open>
  C4. The registration body is not among the sources and is taken as modelled above.
  Called with a registrar pointer that is not null, in any state,
  \<open>RegisterWithRegistrar\<close> returns normally: it neither throws nor aborts.
\<close>

theorem register_with_registrar_returns:
  "registrar \<noteq> nullptr \<Longrightarrow>
   fst (FlutterMcpCommonPlugin_RegisterWithRegistrar on_null registrar w) = Inr ()"
  by (cases registrar) (simp_all add: FlutterMcpCommonPlugin_RegisterWithRegistrar_def)

theorem register_with_registrar_returns_witness:
  "Ptr (PluginRegistrarWindows 7) \<noteq> nullptr
   \<and> fst (FlutterMcpCommonPlugin_RegisterWithRegistrar (\<lambda>w. (Inl Aborted, w))
        (Ptr (PluginRegistrarWindows 7)) at_load) = Inr ()"
  using register_with_registrar_returns [of "Ptr (PluginRegistrarWindows 7)"
      "\<lambda>w. (Inl Aborted, w)" at_load]
  by simp

text \<open>
  C5. The registration body is taken as modelled above. Let the handle be valid while
  the process is in a state satisfying \<open>I\<close>: there the embedder resolves it to a registrar
  object, and registering on that object leads to a state satisfying \<open>I\<close> again. Then
  from such a state any number of invocations of the shim with that handle, one after
  the other, all return normally; none throws, aborts or traps.
\<close>

theorem repeated_invocation_returns:
  assumes valid: "\<And>w. I w \<Longrightarrow>
      \<exists>m w1 r w2. GetInstance env w = (Inr m, w1)
        \<and> GetRegistrar env m registrar w1 = (Inr (Ptr r), w2)
        \<and> I (snd (FlutterMcpCommonPlugin_RegisterWithRegistrar on_null (Ptr r) w2))"
    and plugin: "RegisterWithRegistrar env = FlutterMcpCommonPlugin_RegisterWithRegistrar on_null"
    and start: "I w"
  shows "fst (invoke_repeatedly n env registrar w) = Inr ()
       \<and> I (snd (invoke_repeatedly n env registrar w))"
  using start
proof (induction n arbitrary: w)
  case 0
  then show ?case by simp
next
  case (Suc n)
  from valid [OF Suc.prems] obtain m w1 r w2 where
    gi: "GetInstance env w = (Inr m, w1)" and
    gr: "GetRegistrar env m registrar w1 = (Inr (Ptr r), w2)" and
    inv: "I (snd (FlutterMcpCommonPlugin_RegisterWithRegistrar on_null (Ptr r) w2))"
    by blast
  let ?run = "FlutterMcpCommonPluginCApiRegisterWithRegistrar env registrar w"
  have ret: "outcome ?run = Inr ()"
    using gi gr plugin
    by (simp add: FlutterMcpCommonPluginCApiRegisterWithRegistrar_def
        FlutterMcpCommonPlugin_RegisterWithRegistrar_def)
  have st: "world ?run = snd (FlutterMcpCommonPlugin_RegisterWithRegistrar on_null (Ptr r) w2)"
    using gi gr plugin
    by (simp add: FlutterMcpCommonPluginCApiRegisterWithRegistrar_def split: prod.splits)
  have "I (world ?run)"
    using inv st by simp
  from Suc.IH [OF this] show ?case
    using ret by (simp add: Let_def)
qed

theorem repeated_invocation_returns_witness:
  "fst (invoke_repeatedly 3 embedder (Ptr (FlutterDesktopPluginRegistrar 7)) at_load) = Inr ()"
  using repeated_invocation_returns [where env = embedder and I = "\<lambda>w. True" and n = 3
      and registrar = "Ptr (FlutterDesktopPluginRegistrar 7)" and w = at_load
      and on_null = "\<lambda>w. (Inl Aborted, w)"]
  by (simp add: embedder_GetInstance_returns embedder_GetRegistrar_resolves
      embedder_RegisterWithRegistrar)

subsection \<open>The plugin class\<close>

text \<open>
  C6. The class declares its copy constructor and its copy assignment operator itself,
  both deleted. So a program that copy-constructs or copy-assigns a
  \<open>FlutterMcpCommonPlugin\<close> does not compile.
\<close>

theorem plugin_not_copyable:
  "declared_copy_constructor (members FlutterMcpCommonPlugin) = Some Deleted
   \<and> declared_copy_assignment (members FlutterMcpCommonPlugin) = Some Deleted
   \<and> \<not> copy_construction_compiles FlutterMcpCommonPlugin
   \<and> \<not> copy_assignment_compiles FlutterMcpCommonPlugin"
  by (simp add: FlutterMcpCommonPlugin_def copy_construction_compiles_def
      copy_assignment_compiles_def)

text \<open>
  C7. The class declares no data member, so an instance has one state only, the empty
  one. Whatever an operation of the class does, it leaves an instance in the state it
  found it in, and a property of the instance state that held before still holds after.
\<close>

theorem plugin_has_no_state:
  assumes "instance_state FlutterMcpCommonPlugin s"
    and "instance_state FlutterMcpCommonPlugin (operation s)"
  shows "data_members (members FlutterMcpCommonPlugin) = []
       \<and> s = []
       \<and> operation s = s
       \<and> (Inv s \<longrightarrow> Inv (operation s))"
proof -
  have none: "data_members (members FlutterMcpCommonPlugin) = []"
    by (simp add: FlutterMcpCommonPlugin_def)
  have one: "t = []" if "instance_state FlutterMcpCommonPlugin t" for t :: "(string \<times> 'a) list"
    using that by (simp add: instance_state_def none)
  from one [OF assms(1)] one [OF assms(2)] none show ?thesis
    by simp
qed

theorem plugin_has_no_state_witness:
  "instance_state FlutterMcpCommonPlugin ([] :: (string \<times> nat) list)
   \<and> instance_state FlutterMcpCommonPlugin (rev ([] :: (string \<times> nat) list))
   \<and> rev ([] :: (string \<times> nat) list) = []
   \<and> data_members (members FlutterMcpCommonPlugin) = []"
  using plugin_has_no_state [of "[] :: (string \<times> nat) list" rev]
  by (simp add: instance_state_def FlutterMcpCommonPlugin_def)

end
